theory Spec2Isabelle
  imports Main
begin

section \<open>Constants of the secret annotator\<close>

text \<open>
  The constants of \<^verbatim>\<open>pkg/controller/secretannotator/secretannotator_controller.go\<close>.
  A Go string is a sequence of bytes, and so is an Isabelle \<open>string\<close>.
\<close>

definition CloudCredSecretName :: string where
  "CloudCredSecretName = ''aws-creds''"

definition CloudCredSecretNamespace :: string where
  "CloudCredSecretNamespace = ''kube-system''"

definition AnnotationKey :: string where
  "AnnotationKey = ''cloudcredential.openshift.io/mode''"

definition MintAnnotation :: string where
  "MintAnnotation = ''mint''"

definition PassthroughAnnotation :: string where
  "PassthroughAnnotation = ''passthrough''"

definition InsufficientAnnotation :: string where
  "InsufficientAnnotation = ''insufficient''"

definition AwsAccessKeyName :: string where
  "AwsAccessKeyName = ''aws_access_key_id''"

definition AwsSecretAccessKeyName :: string where
  "AwsSecretAccessKeyName = ''aws_secret_access_key''"

section \<open>Data model\<close>

text \<open>
  A Go \<^verbatim>\<open>error\<close> value. Collaborators return errors of their own types; \<^verbatim>\<open>fmt.Errorf\<close>
  with the verb \<^verbatim>\<open>%v\<close> builds a new plain error whose message is the format's text followed
  by the message of its argument.
\<close>

datatype error = StatusError string | ErrorString string

fun Error :: "error \<Rightarrow> string" where
  "Error (StatusError m) = m"
| "Error (ErrorString m) = m"

definition Errorf :: "string \<Rightarrow> error \<Rightarrow> error" where
  "Errorf prefix err = ErrorString (prefix @ Error err)"

type_synonym bytes = "char list"

text \<open>
  \<^verbatim>\<open>corev1.Secret\<close>: the fields of the object metadata and of the secret itself. A Go map
  may be \<^verbatim>\<open>nil\<close>; for the annotations the code tells \<^verbatim>\<open>nil\<close> from an empty map, so the
  field is an optional map. Reading a key of a \<^verbatim>\<open>nil\<close> map gives "not present", so
  \<open>Data\<close> and \<open>Labels\<close> are plain maps.
\<close>

record secret =
  Namespace :: string
  Name :: string
  Labels :: "string \<rightharpoonup> string"
  Annotations :: "(string \<rightharpoonup> string) option"
  ResourceVersion :: string
  Data :: "string \<rightharpoonup> bytes"
  SecretType :: string

text \<open>\<^verbatim>\<open>types.NamespacedName\<close>: namespace and name.\<close>

type_synonym NamespacedName = "string \<times> string"

text \<open>\<^verbatim>\<open>credentials.Value\<close> of the AWS SDK, as far as the code fills it.\<close>

record credentials =
  AccessKeyID :: string
  SecretAccessKey :: string

text \<open>\<^verbatim>\<open>configv1.Infrastructure\<close>, as far as the code reads it.\<close>

record Infrastructure =
  InfrastructureName :: string

text \<open>\<^verbatim>\<open>reconcile.Result\<close>.\<close>

record Result =
  Requeue :: bool
  RequeueAfter :: nat

definition emptyResult :: Result where
  "emptyResult = \<lparr>Requeue = False, RequeueAfter = 0\<rparr>"

section \<open>Event filter\<close>

text \<open>
  \<^verbatim>\<open>cloudCredSecretObjectCheck\<close> reads the namespace and the name of the object
  (\<^verbatim>\<open>metav1.Object\<close>); the watch is on secrets.
\<close>

definition cloudCredSecretObjectCheck :: "secret \<Rightarrow> bool" where
  "cloudCredSecretObjectCheck secret =
     (if Namespace secret = CloudCredSecretNamespace \<and> Name secret = CloudCredSecretName
      then True else False)"

text \<open>
  The three notification kinds of the watch. An update carries the old and the new
  object (\<^verbatim>\<open>MetaOld\<close>, \<^verbatim>\<open>MetaNew\<close>).
\<close>

datatype event = CreateEvent secret | UpdateEvent secret secret | DeleteEvent secret

text \<open>The three functions of the \<^verbatim>\<open>predicate.Funcs\<close> value \<^verbatim>\<open>p\<close> built in \<^verbatim>\<open>add\<close>.\<close>

definition UpdateFunc :: "secret \<Rightarrow> secret \<Rightarrow> bool" where
  "UpdateFunc metaOld metaNew = cloudCredSecretObjectCheck metaNew"

definition CreateFunc :: "secret \<Rightarrow> bool" where
  "CreateFunc meta = cloudCredSecretObjectCheck meta"

definition DeleteFunc :: "secret \<Rightarrow> bool" where
  "DeleteFunc meta = cloudCredSecretObjectCheck meta"

fun p :: "event \<Rightarrow> bool" where
  "p (UpdateEvent metaOld metaNew) = UpdateFunc metaOld metaNew"
| "p (CreateEvent meta) = CreateFunc meta"
| "p (DeleteEvent meta) = DeleteFunc meta"

text \<open>The object a notification is about: for an update, the new object.\<close>

fun notified :: "event \<Rightarrow> secret" where
  "notified (CreateEvent meta) = meta"
| "notified (UpdateEvent metaOld metaNew) = metaNew"
| "notified (DeleteEvent meta) = meta"

section \<open>Collaborators and the state of a reconciliation\<close>

text \<open>
  The collaborators are not part of this repository's core: the cluster client
  (\<^verbatim>\<open>Get\<close> of the secret, \<^verbatim>\<open>Get\<close> of the Infrastructure object named \<^verbatim>\<open>cluster\<close>,
  \<^verbatim>\<open>Update\<close>), the client builder and the two probes
  (\<^verbatim>\<open>utils.CheckCloudCredCreation\<close>, \<^verbatim>\<open>utils.CheckCloudCredPassthrough\<close>). They are
  parameters of the model; each may fail. A probe returns a Go pair \<^verbatim>\<open>(bool, error)\<close>.
  The type \<open>'c\<close> is the cloud client handle.
\<close>

record 'c collaborators =
  Get :: "NamespacedName \<Rightarrow> error + secret"
  GetInfrastructure :: "error + Infrastructure"
  Update :: "secret \<Rightarrow> error option"
  AWSClientBuilder :: "credentials \<Rightarrow> string \<Rightarrow> error + 'c"
  CheckCloudCredCreation :: "'c \<Rightarrow> bool \<times> error option"
  CheckCloudCredPassthrough :: "'c \<Rightarrow> bool \<times> error option"

text \<open>One call of a collaborator, with its arguments and what it returned.\<close>

datatype 'c call =
    CallGet NamespacedName "error option"
  | CallLoadInfrastructureName "error option"
  | CallAWSClientBuilder credentials string "error option"
  | CallCheckCloudCredCreation 'c bool "error option"
  | CallCheckCloudCredPassthrough 'c bool "error option"
  | CallUpdate secret "error option"

text \<open>
  The state threaded through a reconciliation: the objects the cluster holds, which a
  successful \<^verbatim>\<open>Update\<close> replaces as a whole, and the collaborator calls made so far.
  What \<^verbatim>\<open>Get\<close> returns is a parameter of its own and need not be what the cluster
  holds: the client reads through a cache, and a read may fail.
\<close>

record 'c world =
  objects :: "NamespacedName \<rightharpoonup> secret"
  calls :: "'c call list"

definition record_call :: "'c call \<Rightarrow> 'c world \<Rightarrow> 'c world" where
  "record_call c w = w\<lparr>calls := calls w @ [c]\<rparr>"

definition errorOf :: "error + 'a \<Rightarrow> error option" where
  "errorOf x = (case x of Inl err \<Rightarrow> Some err | Inr v \<Rightarrow> None)"

definition clientGet ::
  "'c collaborators \<Rightarrow> NamespacedName \<Rightarrow> 'c world \<Rightarrow> (error + secret) \<times> 'c world" where
  "clientGet r key w = (Get r key, record_call (CallGet key (errorOf (Get r key))) w)"

definition clientUpdate ::
  "'c collaborators \<Rightarrow> secret \<Rightarrow> 'c world \<Rightarrow> error option \<times> 'c world" where
  "clientUpdate r secret w =
     (case Update r secret of
        Some err \<Rightarrow> (Some err, record_call (CallUpdate secret (Some err)) w)
      | None \<Rightarrow>
          (None, record_call (CallUpdate secret None)
                   (w\<lparr>objects := (objects w)((Namespace secret, Name secret) \<mapsto> secret)\<rparr>)))"

definition buildClient ::
  "'c collaborators \<Rightarrow> credentials \<Rightarrow> string \<Rightarrow> 'c world \<Rightarrow> (error + 'c) \<times> 'c world" where
  "buildClient r creds infraName w =
     (AWSClientBuilder r creds infraName,
      record_call (CallAWSClientBuilder creds infraName
                     (errorOf (AWSClientBuilder r creds infraName))) w)"

definition checkCreation ::
  "'c collaborators \<Rightarrow> 'c \<Rightarrow> 'c world \<Rightarrow> (bool \<times> error option) \<times> 'c world" where
  "checkCreation r awsClient w =
     (CheckCloudCredCreation r awsClient,
      record_call (CallCheckCloudCredCreation awsClient
                     (fst (CheckCloudCredCreation r awsClient))
                     (snd (CheckCloudCredCreation r awsClient))) w)"

definition checkPassthrough ::
  "'c collaborators \<Rightarrow> 'c \<Rightarrow> 'c world \<Rightarrow> (bool \<times> error option) \<times> 'c world" where
  "checkPassthrough r awsClient w =
     (CheckCloudCredPassthrough r awsClient,
      record_call (CallCheckCloudCredPassthrough awsClient
                     (fst (CheckCloudCredPassthrough r awsClient))
                     (snd (CheckCloudCredPassthrough r awsClient))) w)"

section \<open>The reconciler\<close>

text \<open>
  \<^verbatim>\<open>utils.LoadInfrastructureName\<close>: reads the Infrastructure object and returns its
  infrastructure name, or the empty string and the error of the read.
\<close>

definition LoadInfrastructureName ::
  "'c collaborators \<Rightarrow> 'c world \<Rightarrow> (string \<times> error option) \<times> 'c world" where
  "LoadInfrastructureName r w =
     (case GetInfrastructure r of
        Inl err \<Rightarrow> (('''', Some err), record_call (CallLoadInfrastructureName (Some err)) w)
      | Inr infra \<Rightarrow>
          ((InfrastructureName infra, None), record_call (CallLoadInfrastructureName None) w))"

text \<open>
  \<^verbatim>\<open>updateSecretAnnotations\<close>: the annotations of the secret, an empty map when they are
  \<^verbatim>\<open>nil\<close>, get the value under the annotation key; the secret with these annotations
  is handed to \<^verbatim>\<open>Update\<close>, whose error is the result.
\<close>

definition updateSecretAnnotations ::
  "'c collaborators \<Rightarrow> secret \<Rightarrow> string \<Rightarrow> 'c world \<Rightarrow> error option \<times> 'c world" where
  "updateSecretAnnotations r secret v w =
     (let secretAnnotations =
            (case Annotations secret of None \<Rightarrow> Map.empty | Some m \<Rightarrow> m);
          secretAnnotations' = secretAnnotations(AnnotationKey \<mapsto> v);
          secret' = secret\<lparr>Annotations := Some secretAnnotations'\<rparr>
      in clientUpdate r secret' w)"

text \<open>
  \<^verbatim>\<open>validateCloudCredsSecret\<close>, branch by branch. In the two branches of a failed probe
  the error that \<^verbatim>\<open>updateSecretAnnotations\<close> returns is dropped, as in the source.
\<close>

definition validateCloudCredsSecret ::
  "'c collaborators \<Rightarrow> secret \<Rightarrow> 'c world \<Rightarrow> error option \<times> 'c world" where
  "validateCloudCredsSecret r secret w =
     (case Data secret AwsAccessKeyName of
        None \<Rightarrow> updateSecretAnnotations r secret InsufficientAnnotation w
      | Some accessKey \<Rightarrow>
     (case Data secret AwsSecretAccessKeyName of
        None \<Rightarrow> updateSecretAnnotations r secret InsufficientAnnotation w
      | Some secretKey \<Rightarrow>
     (case LoadInfrastructureName r w of
        ((infraName, Some err), w1) \<Rightarrow> (Some err, w1)
      | ((infraName, None), w1) \<Rightarrow>
     (let creds = \<lparr>AccessKeyID = accessKey, SecretAccessKey = secretKey\<rparr> in
     (case buildClient r creds infraName w1 of
        (Inl err, w2) \<Rightarrow> (Some (Errorf ''error creating aws client: '' err), w2)
      | (Inr awsClient, w2) \<Rightarrow>
     (case checkCreation r awsClient w2 of
        ((cloudCheckResult, Some err), w3) \<Rightarrow>
          (Some (Errorf ''failed checking create cloud creds: '' err),
           snd (updateSecretAnnotations r secret InsufficientAnnotation w3))
      | ((cloudCheckResult, None), w3) \<Rightarrow>
     (if cloudCheckResult
      then updateSecretAnnotations r secret MintAnnotation w3
      else
     (case checkPassthrough r awsClient w3 of
        ((cloudCheckResult', Some err), w4) \<Rightarrow>
          (Some (Errorf ''failed checking passthrough cloud creds: '' err),
           snd (updateSecretAnnotations r secret InsufficientAnnotation w4))
      | ((cloudCheckResult', None), w4) \<Rightarrow>
     (if cloudCheckResult'
      then updateSecretAnnotations r secret PassthroughAnnotation w4
      else updateSecretAnnotations r secret InsufficientAnnotation w4)))))))))"

text \<open>\<^verbatim>\<open>Reconcile\<close>: the result is always the empty \<^verbatim>\<open>reconcile.Result\<close>.\<close>

definition Reconcile ::
  "'c collaborators \<Rightarrow> NamespacedName \<Rightarrow> 'c world \<Rightarrow> (Result \<times> error option) \<times> 'c world" where
  "Reconcile r request w =
     (case clientGet r request w of
        (Inl err, w1) \<Rightarrow> ((emptyResult, Some err), w1)
      | (Inr secret, w1) \<Rightarrow>
          (case validateCloudCredsSecret r secret w1 of
             (Some err, w2) \<Rightarrow> ((emptyResult, Some err), w2)
           | (None, w2) \<Rightarrow> ((emptyResult, None), w2)))"

text \<open>
  One reconciliation: \<^verbatim>\<open>Reconcile\<close> run on a cluster holding the given objects, with
  no collaborator call made yet.
\<close>

definition reconciliation ::
  "'c collaborators \<Rightarrow> NamespacedName \<Rightarrow> (NamespacedName \<rightharpoonup> secret) \<Rightarrow>
     (Result \<times> error option) \<times> 'c world" where
  "reconciliation r request objs = Reconcile r request \<lparr>objects = objs, calls = []\<rparr>"

section \<open>Observing a reconciliation\<close>

text \<open>
  What a caller or a test sees of a run: the error it returns, the collaborator calls it
  made, and the objects the cluster holds afterwards.
\<close>

text \<open>The \<^verbatim>\<open>Update\<close> calls of a run, in order: the object written and the result.\<close>

fun annotation_writes :: "'c call list \<Rightarrow> (secret \<times> error option) list" where
  "annotation_writes [] = []"
| "annotation_writes (CallUpdate s e # xs) = (s, e) # annotation_writes xs"
| "annotation_writes (x # xs) = annotation_writes xs"

text \<open>The value an object holds under the annotation key, if any.\<close>

definition mode_of :: "secret \<Rightarrow> string option" where
  "mode_of s = (case Annotations s of None \<Rightarrow> None | Some m \<Rightarrow> m AnnotationKey)"

fun is_passthrough_probe :: "'c call \<Rightarrow> bool" where
  "is_passthrough_probe (CallCheckCloudCredPassthrough c b e) = True"
| "is_passthrough_probe x = False"

fun is_cloud_call :: "'c call \<Rightarrow> bool" where
  "is_cloud_call (CallLoadInfrastructureName e) = True"
| "is_cloud_call (CallAWSClientBuilder creds infraName e) = True"
| "is_cloud_call (CallCheckCloudCredCreation c b e) = True"
| "is_cloud_call (CallCheckCloudCredPassthrough c b e) = True"
| "is_cloud_call x = False"

text \<open>The error a collaborator call returned, if it failed.\<close>

fun failure :: "'c call \<Rightarrow> error option" where
  "failure (CallGet key e) = e"
| "failure (CallLoadInfrastructureName e) = e"
| "failure (CallAWSClientBuilder creds infraName e) = e"
| "failure (CallCheckCloudCredCreation c b e) = e"
| "failure (CallCheckCloudCredPassthrough c b e) = e"
| "failure (CallUpdate s e) = e"

text \<open>
  The error \<^verbatim>\<open>validateCloudCredsSecret\<close> makes of a failed call when it returns on it:
  the error itself, or the \<^verbatim>\<open>fmt.Errorf\<close> of the branch.
\<close>

fun surfaced :: "'c call \<Rightarrow> error option" where
  "surfaced (CallGet key e) = e"
| "surfaced (CallLoadInfrastructureName e) = e"
| "surfaced (CallAWSClientBuilder creds infraName e) =
     map_option (Errorf ''error creating aws client: '') e"
| "surfaced (CallCheckCloudCredCreation c b e) =
     map_option (Errorf ''failed checking create cloud creds: '') e"
| "surfaced (CallCheckCloudCredPassthrough c b e) =
     map_option (Errorf ''failed checking passthrough cloud creds: '') e"
| "surfaced (CallUpdate s e) = e"

text \<open>
  The failures that end a run before any mode is decided: of the fetch, of the
  infra-name lookup, of the client construction.
\<close>

fun fails_before_classification :: "'c call \<Rightarrow> bool" where
  "fails_before_classification (CallGet key (Some e)) = True"
| "fails_before_classification (CallLoadInfrastructureName (Some e)) = True"
| "fails_before_classification (CallAWSClientBuilder creds infraName (Some e)) = True"
| "fails_before_classification x = False"

definition returned_error :: "(Result \<times> error option) \<times> 'c world \<Rightarrow> error option" where
  "returned_error run = snd (fst run)"

definition calls_made :: "(Result \<times> error option) \<times> 'c world \<Rightarrow> 'c call list" where
  "calls_made run = calls (snd run)"

definition persisted :: "(Result \<times> error option) \<times> 'c world \<Rightarrow> (NamespacedName \<rightharpoonup> secret)" where
  "persisted run = objects (snd run)"

section \<open>The object handed to Update\<close>

text \<open>
  \<open>annotated secret v\<close> is the secret as \<^verbatim>\<open>updateSecretAnnotations\<close> leaves it, and
  \<open>stored r s objs\<close> the objects of the cluster after \<^verbatim>\<open>Update\<close> was called on \<open>s\<close>.
  Both only name terms of the lemmas below.
\<close>

definition annotated :: "secret \<Rightarrow> string \<Rightarrow> secret" where
  "annotated secret v =
     secret\<lparr>Annotations :=
       Some ((case Annotations secret of None \<Rightarrow> Map.empty | Some m \<Rightarrow> m)(AnnotationKey \<mapsto> v))\<rparr>"

definition stored :: "'c collaborators \<Rightarrow> secret \<Rightarrow> (NamespacedName \<rightharpoonup> secret) \<Rightarrow> (NamespacedName \<rightharpoonup> secret)" where
  "stored r s objs = (case Update r s of Some err \<Rightarrow> objs | None \<Rightarrow> objs((Namespace s, Name s) \<mapsto> s))"

section \<open>A test double of the collaborators\<close>

text \<open>
  A fake of the collaborators in the manner of a unit test: every collaborator returns
  a fixed answer. The client handle is a number.
\<close>

definition example_data :: "string \<rightharpoonup> bytes" where
  "example_data = [AwsAccessKeyName \<mapsto> ''AKIAEXAMPLE'', AwsSecretAccessKeyName \<mapsto> ''wJalrEXAMPLEKEY'']"

definition empty_valued_data :: "string \<rightharpoonup> bytes" where
  "empty_valued_data = [AwsAccessKeyName \<mapsto> '''', AwsSecretAccessKeyName \<mapsto> '''']"

definition missing_key_data :: "string \<rightharpoonup> bytes" where
  "missing_key_data = [AwsAccessKeyName \<mapsto> ''AKIAEXAMPLE'']"

definition example_secret :: "(string \<rightharpoonup> bytes) \<Rightarrow> secret" where
  "example_secret d =
     \<lparr>Namespace = ''kube-system'', Name = ''aws-creds'', Labels = Map.empty,
      Annotations = Some [''owner'' \<mapsto> ''installer''], ResourceVersion = ''41'',
      Data = d, SecretType = ''Opaque''\<rparr>"

definition example_request :: NamespacedName where
  "example_request = (''kube-system'', ''aws-creds'')"

definition example_infra :: Infrastructure where
  "example_infra = \<lparr>InfrastructureName = ''cluster-7xk2p''\<rparr>"

definition fake_collaborators ::
  "error + secret \<Rightarrow> error + Infrastructure \<Rightarrow> error + nat \<Rightarrow> bool \<times> error option \<Rightarrow>
     bool \<times> error option \<Rightarrow> error option \<Rightarrow> nat collaborators" where
  "fake_collaborators fetched infra built mint pass upd =
     \<lparr>Get = (\<lambda>key. fetched), GetInfrastructure = infra, Update = (\<lambda>secret. upd),
      AWSClientBuilder = (\<lambda>creds infraName. built),
      CheckCloudCredCreation = (\<lambda>c. mint), CheckCloudCredPassthrough = (\<lambda>c. pass)\<rparr>"

definition probing_cluster ::
  "bool \<times> error option \<Rightarrow> bool \<times> error option \<Rightarrow> error option \<Rightarrow> nat collaborators" where
  "probing_cluster mint pass upd =
     fake_collaborators (Inr (example_secret example_data)) (Inr example_infra) (Inr 7) mint pass upd"

section \<open>The runs of the reconciler, path by path\<close>

text \<open>
  For each way through \<^verbatim>\<open>validateCloudCredsSecret\<close>, a lemma gives the result and
  the state under the answers of the collaborators that select it;
  \<open>reconciliation_cases\<close> puts them together with the fetch: every reconciliation is one
  of these runs.
\<close>

lemmas observe_defs = returned_error_def calls_made_def persisted_def mode_of_def annotated_def
  MintAnnotation_def PassthroughAnnotation_def InsufficientAnnotation_def

lemmas run_defs = reconciliation_def Reconcile_def validateCloudCredsSecret_def
  updateSecretAnnotations_def clientUpdate_def clientGet_def buildClient_def
  checkCreation_def checkPassthrough_def LoadInfrastructureName_def record_call_def errorOf_def
  emptyResult_def Errorf_def Let_def
  AwsAccessKeyName_def AwsSecretAccessKeyName_def AnnotationKey_def

lemmas example_defs = probing_cluster_def fake_collaborators_def example_secret_def example_data_def
  empty_valued_data_def missing_key_data_def example_request_def example_infra_def

lemma updateSecretAnnotations_run:
  "updateSecretAnnotations r secret v w =
     (Update r (annotated secret v),
      w\<lparr>objects := stored r (annotated secret v) (objects w),
       calls := calls w @ [CallUpdate (annotated secret v) (Update r (annotated secret v))]\<rparr>)"
  by (simp add: updateSecretAnnotations_def clientUpdate_def record_call_def annotated_def stored_def
        Let_def split: option.split)

lemma Reconcile_fetch_failed:
  assumes "Get r request = Inl e"
  shows "reconciliation r request objs =
     ((emptyResult, Some e), \<lparr>objects = objs, calls = [CallGet request (Some e)]\<rparr>)"
  using assms by (simp add: reconciliation_def Reconcile_def clientGet_def record_call_def errorOf_def)

lemma Reconcile_fetched:
  assumes "Get r request = Inr secret"
  shows "reconciliation r request objs =
     ((emptyResult, fst (validateCloudCredsSecret r secret \<lparr>objects = objs, calls = [CallGet request None]\<rparr>)),
       snd (validateCloudCredsSecret r secret \<lparr>objects = objs, calls = [CallGet request None]\<rparr>))"
  using assms by (simp add: reconciliation_def Reconcile_def clientGet_def record_call_def errorOf_def
      split: prod.split option.split)

lemma validate_missing:
  assumes "Data secret AwsAccessKeyName = None \<or> Data secret AwsSecretAccessKeyName = None"
  shows "validateCloudCredsSecret r secret w = updateSecretAnnotations r secret InsufficientAnnotation w"
  using assms by (auto simp add: validateCloudCredsSecret_def split: option.split)

lemma validate_infra_failed:
  assumes "Data secret AwsAccessKeyName = Some accessKey" "Data secret AwsSecretAccessKeyName = Some secretKey"
    "GetInfrastructure r = Inl e"
  shows "validateCloudCredsSecret r secret w = (Some e, w\<lparr>calls := calls w @ [CallLoadInfrastructureName (Some e)]\<rparr>)"
  using assms by (simp add: validateCloudCredsSecret_def LoadInfrastructureName_def record_call_def)

lemma validate_build_failed:
  assumes "Data secret AwsAccessKeyName = Some accessKey" "Data secret AwsSecretAccessKeyName = Some secretKey"
    "GetInfrastructure r = Inr infra"
    "AWSClientBuilder r \<lparr>AccessKeyID = accessKey, SecretAccessKey = secretKey\<rparr> (InfrastructureName infra) = Inl e"
  shows "validateCloudCredsSecret r secret w =
    (Some (Errorf ''error creating aws client: '' e),
     w\<lparr>calls := calls w @ [CallLoadInfrastructureName None,
         CallAWSClientBuilder \<lparr>AccessKeyID = accessKey, SecretAccessKey = secretKey\<rparr> (InfrastructureName infra) (Some e)]\<rparr>)"
  using assms by (simp add: validateCloudCredsSecret_def LoadInfrastructureName_def record_call_def
     buildClient_def errorOf_def)

lemma validate_mint_error:
  assumes "Data secret AwsAccessKeyName = Some accessKey" "Data secret AwsSecretAccessKeyName = Some secretKey"
    "GetInfrastructure r = Inr infra"
    "AWSClientBuilder r \<lparr>AccessKeyID = accessKey, SecretAccessKey = secretKey\<rparr> (InfrastructureName infra) = Inr c"
    "CheckCloudCredCreation r c = (b, Some e)"
  shows "validateCloudCredsSecret r secret w =
    (Some (Errorf ''failed checking create cloud creds: '' e),
     w\<lparr>objects := stored r (annotated secret InsufficientAnnotation) (objects w),
      calls := calls w @ [CallLoadInfrastructureName None,
         CallAWSClientBuilder \<lparr>AccessKeyID = accessKey, SecretAccessKey = secretKey\<rparr> (InfrastructureName infra) None,
         CallCheckCloudCredCreation c b (Some e),
         CallUpdate (annotated secret InsufficientAnnotation) (Update r (annotated secret InsufficientAnnotation))]\<rparr>)"
  using assms by (simp add: validateCloudCredsSecret_def LoadInfrastructureName_def record_call_def
     buildClient_def errorOf_def checkCreation_def updateSecretAnnotations_run)

lemma validate_mint_true:
  assumes "Data secret AwsAccessKeyName = Some accessKey" "Data secret AwsSecretAccessKeyName = Some secretKey"
    "GetInfrastructure r = Inr infra"
    "AWSClientBuilder r \<lparr>AccessKeyID = accessKey, SecretAccessKey = secretKey\<rparr> (InfrastructureName infra) = Inr c"
    "CheckCloudCredCreation r c = (True, None)"
  shows "validateCloudCredsSecret r secret w =
    (Update r (annotated secret MintAnnotation),
     w\<lparr>objects := stored r (annotated secret MintAnnotation) (objects w),
      calls := calls w @ [CallLoadInfrastructureName None,
         CallAWSClientBuilder \<lparr>AccessKeyID = accessKey, SecretAccessKey = secretKey\<rparr> (InfrastructureName infra) None,
         CallCheckCloudCredCreation c True None,
         CallUpdate (annotated secret MintAnnotation) (Update r (annotated secret MintAnnotation))]\<rparr>)"
  using assms by (simp add: validateCloudCredsSecret_def LoadInfrastructureName_def record_call_def
     buildClient_def errorOf_def checkCreation_def updateSecretAnnotations_run)

lemma validate_passthrough_error:
  assumes "Data secret AwsAccessKeyName = Some accessKey" "Data secret AwsSecretAccessKeyName = Some secretKey"
    "GetInfrastructure r = Inr infra"
    "AWSClientBuilder r \<lparr>AccessKeyID = accessKey, SecretAccessKey = secretKey\<rparr> (InfrastructureName infra) = Inr c"
    "CheckCloudCredCreation r c = (False, None)"
    "CheckCloudCredPassthrough r c = (b, Some e)"
  shows "validateCloudCredsSecret r secret w =
    (Some (Errorf ''failed checking passthrough cloud creds: '' e),
     w\<lparr>objects := stored r (annotated secret InsufficientAnnotation) (objects w),
      calls := calls w @ [CallLoadInfrastructureName None,
         CallAWSClientBuilder \<lparr>AccessKeyID = accessKey, SecretAccessKey = secretKey\<rparr> (InfrastructureName infra) None,
         CallCheckCloudCredCreation c False None,
         CallCheckCloudCredPassthrough c b (Some e),
         CallUpdate (annotated secret InsufficientAnnotation) (Update r (annotated secret InsufficientAnnotation))]\<rparr>)"
  using assms by (simp add: validateCloudCredsSecret_def LoadInfrastructureName_def record_call_def
     buildClient_def errorOf_def checkCreation_def checkPassthrough_def updateSecretAnnotations_run)

lemma validate_passthrough_result:
  assumes "Data secret AwsAccessKeyName = Some accessKey" "Data secret AwsSecretAccessKeyName = Some secretKey"
    "GetInfrastructure r = Inr infra"
    "AWSClientBuilder r \<lparr>AccessKeyID = accessKey, SecretAccessKey = secretKey\<rparr> (InfrastructureName infra) = Inr c"
    "CheckCloudCredCreation r c = (False, None)"
    "CheckCloudCredPassthrough r c = (b, None)"
  shows "validateCloudCredsSecret r secret w =
    (Update r (annotated secret (if b then PassthroughAnnotation else InsufficientAnnotation)),
     w\<lparr>objects := stored r (annotated secret (if b then PassthroughAnnotation else InsufficientAnnotation)) (objects w),
      calls := calls w @ [CallLoadInfrastructureName None,
         CallAWSClientBuilder \<lparr>AccessKeyID = accessKey, SecretAccessKey = secretKey\<rparr> (InfrastructureName infra) None,
         CallCheckCloudCredCreation c False None,
         CallCheckCloudCredPassthrough c b None,
         CallUpdate (annotated secret (if b then PassthroughAnnotation else InsufficientAnnotation))
            (Update r (annotated secret (if b then PassthroughAnnotation else InsufficientAnnotation)))]\<rparr>)"
  using assms by (simp add: validateCloudCredsSecret_def LoadInfrastructureName_def record_call_def
     buildClient_def errorOf_def checkCreation_def checkPassthrough_def updateSecretAnnotations_run)


lemma reconciliation_cases [case_names fetch_failed missing_field infra_failed build_failed
    mint_error mint_true passthrough_error passthrough_result]:
  obtains
    (fetch_failed) e where
      "Get r request = Inl e"
      "reconciliation r request objs =
         ((emptyResult, Some e), \<lparr>objects = objs, calls = [CallGet request (Some e)]\<rparr>)"
  | (missing_field) secret where
      "Get r request = Inr secret"
      "Data secret AwsAccessKeyName = None \<or> Data secret AwsSecretAccessKeyName = None"
      "reconciliation r request objs =
         ((emptyResult, Update r (annotated secret InsufficientAnnotation)),
          \<lparr>objects = stored r (annotated secret InsufficientAnnotation) objs,
           calls = [CallGet request None,
             CallUpdate (annotated secret InsufficientAnnotation)
               (Update r (annotated secret InsufficientAnnotation))]\<rparr>)"
  | (infra_failed) secret accessKey secretKey e where
      "Get r request = Inr secret"
      "Data secret AwsAccessKeyName = Some accessKey"
      "Data secret AwsSecretAccessKeyName = Some secretKey"
      "GetInfrastructure r = Inl e"
      "reconciliation r request objs =
         ((emptyResult, Some e),
          \<lparr>objects = objs,
           calls = [CallGet request None, CallLoadInfrastructureName (Some e)]\<rparr>)"
  | (build_failed) secret accessKey secretKey infra e where
      "Get r request = Inr secret"
      "Data secret AwsAccessKeyName = Some accessKey"
      "Data secret AwsSecretAccessKeyName = Some secretKey"
      "GetInfrastructure r = Inr infra"
      "AWSClientBuilder r \<lparr>AccessKeyID = accessKey, SecretAccessKey = secretKey\<rparr>
         (InfrastructureName infra) = Inl e"
      "reconciliation r request objs =
         ((emptyResult, Some (Errorf ''error creating aws client: '' e)),
          \<lparr>objects = objs,
           calls = [CallGet request None, CallLoadInfrastructureName None,
             CallAWSClientBuilder \<lparr>AccessKeyID = accessKey, SecretAccessKey = secretKey\<rparr>
               (InfrastructureName infra) (Some e)]\<rparr>)"
  | (mint_error) secret accessKey secretKey infra c b e where
      "Get r request = Inr secret"
      "Data secret AwsAccessKeyName = Some accessKey"
      "Data secret AwsSecretAccessKeyName = Some secretKey"
      "GetInfrastructure r = Inr infra"
      "AWSClientBuilder r \<lparr>AccessKeyID = accessKey, SecretAccessKey = secretKey\<rparr>
         (InfrastructureName infra) = Inr c"
      "CheckCloudCredCreation r c = (b, Some e)"
      "reconciliation r request objs =
         ((emptyResult, Some (Errorf ''failed checking create cloud creds: '' e)),
          \<lparr>objects = stored r (annotated secret InsufficientAnnotation) objs,
           calls = [CallGet request None, CallLoadInfrastructureName None,
             CallAWSClientBuilder \<lparr>AccessKeyID = accessKey, SecretAccessKey = secretKey\<rparr>
               (InfrastructureName infra) None,
             CallCheckCloudCredCreation c b (Some e),
             CallUpdate (annotated secret InsufficientAnnotation)
               (Update r (annotated secret InsufficientAnnotation))]\<rparr>)"
  | (mint_true) secret accessKey secretKey infra c where
      "Get r request = Inr secret"
      "Data secret AwsAccessKeyName = Some accessKey"
      "Data secret AwsSecretAccessKeyName = Some secretKey"
      "GetInfrastructure r = Inr infra"
      "AWSClientBuilder r \<lparr>AccessKeyID = accessKey, SecretAccessKey = secretKey\<rparr>
         (InfrastructureName infra) = Inr c"
      "CheckCloudCredCreation r c = (True, None)"
      "reconciliation r request objs =
         ((emptyResult, Update r (annotated secret MintAnnotation)),
          \<lparr>objects = stored r (annotated secret MintAnnotation) objs,
           calls = [CallGet request None, CallLoadInfrastructureName None,
             CallAWSClientBuilder \<lparr>AccessKeyID = accessKey, SecretAccessKey = secretKey\<rparr>
               (InfrastructureName infra) None,
             CallCheckCloudCredCreation c True None,
             CallUpdate (annotated secret MintAnnotation)
               (Update r (annotated secret MintAnnotation))]\<rparr>)"
  | (passthrough_error) secret accessKey secretKey infra c b e where
      "Get r request = Inr secret"
      "Data secret AwsAccessKeyName = Some accessKey"
      "Data secret AwsSecretAccessKeyName = Some secretKey"
      "GetInfrastructure r = Inr infra"
      "AWSClientBuilder r \<lparr>AccessKeyID = accessKey, SecretAccessKey = secretKey\<rparr>
         (InfrastructureName infra) = Inr c"
      "CheckCloudCredCreation r c = (False, None)"
      "CheckCloudCredPassthrough r c = (b, Some e)"
      "reconciliation r request objs =
         ((emptyResult, Some (Errorf ''failed checking passthrough cloud creds: '' e)),
          \<lparr>objects = stored r (annotated secret InsufficientAnnotation) objs,
           calls = [CallGet request None, CallLoadInfrastructureName None,
             CallAWSClientBuilder \<lparr>AccessKeyID = accessKey, SecretAccessKey = secretKey\<rparr>
               (InfrastructureName infra) None,
             CallCheckCloudCredCreation c False None,
             CallCheckCloudCredPassthrough c b (Some e),
             CallUpdate (annotated secret InsufficientAnnotation)
               (Update r (annotated secret InsufficientAnnotation))]\<rparr>)"
  | (passthrough_result) secret accessKey secretKey infra c b where
      "Get r request = Inr secret"
      "Data secret AwsAccessKeyName = Some accessKey"
      "Data secret AwsSecretAccessKeyName = Some secretKey"
      "GetInfrastructure r = Inr infra"
      "AWSClientBuilder r \<lparr>AccessKeyID = accessKey, SecretAccessKey = secretKey\<rparr>
         (InfrastructureName infra) = Inr c"
      "CheckCloudCredCreation r c = (False, None)"
      "CheckCloudCredPassthrough r c = (b, None)"
      "reconciliation r request objs =
         ((emptyResult,
           Update r (annotated secret (if b then PassthroughAnnotation else InsufficientAnnotation))),
          \<lparr>objects =
             stored r (annotated secret (if b then PassthroughAnnotation else InsufficientAnnotation))
               objs,
           calls = [CallGet request None, CallLoadInfrastructureName None,
             CallAWSClientBuilder \<lparr>AccessKeyID = accessKey, SecretAccessKey = secretKey\<rparr>
               (InfrastructureName infra) None,
             CallCheckCloudCredCreation c False None,
             CallCheckCloudCredPassthrough c b None,
             CallUpdate (annotated secret (if b then PassthroughAnnotation else InsufficientAnnotation))
               (Update r
                 (annotated secret (if b then PassthroughAnnotation else InsufficientAnnotation)))]\<rparr>)"
proof (cases "Get r request")
  case (Inl e)
  then show ?thesis using fetch_failed Reconcile_fetch_failed by blast
next
  case fetched: (Inr secret)
  note run = Reconcile_fetched [OF fetched, of objs]
  show ?thesis
  proof (cases "Data secret AwsAccessKeyName = None \<or> Data secret AwsSecretAccessKeyName = None")
    case True
    show ?thesis
      by (rule missing_field [OF fetched True])
         (simp add: run validate_missing [OF True] updateSecretAnnotations_run)
  next
    case False
    then obtain accessKey secretKey where
      keys: "Data secret AwsAccessKeyName = Some accessKey"
        "Data secret AwsSecretAccessKeyName = Some secretKey"
      by auto
    show ?thesis
    proof (cases "GetInfrastructure r")
      case (Inl e)
      show ?thesis
        by (rule infra_failed [OF fetched keys Inl])
           (simp add: run validate_infra_failed [OF keys Inl])
    next
      case infra: (Inr infra)
      show ?thesis
      proof (cases "AWSClientBuilder r \<lparr>AccessKeyID = accessKey, SecretAccessKey = secretKey\<rparr>
                      (InfrastructureName infra)")
        case (Inl e)
        show ?thesis
          by (rule build_failed [OF fetched keys infra Inl])
             (simp add: run validate_build_failed [OF keys infra Inl])
      next
        case built: (Inr c)
        show ?thesis
        proof (cases "CheckCloudCredCreation r c")
          case mint: (Pair b err)
          show ?thesis
          proof (cases err)
            case (Some e)
            with mint have m: "CheckCloudCredCreation r c = (b, Some e)" by simp
            show ?thesis
              by (rule mint_error [OF fetched keys infra built m])
                 (simp add: run validate_mint_error [OF keys infra built m])
          next
            case None
            show ?thesis
            proof (cases b)
              case True
              with mint None have m: "CheckCloudCredCreation r c = (True, None)" by simp
              show ?thesis
                by (rule mint_true [OF fetched keys infra built m])
                   (simp add: run validate_mint_true [OF keys infra built m])
            next
              case False
              with mint None have m: "CheckCloudCredCreation r c = (False, None)" by simp
              show ?thesis
              proof (cases "CheckCloudCredPassthrough r c")
                case pass: (Pair b' err')
                show ?thesis
                proof (cases err')
                  case (Some e)
                  with pass have q: "CheckCloudCredPassthrough r c = (b', Some e)" by simp
                  show ?thesis
                    by (rule passthrough_error [OF fetched keys infra built m q])
                       (simp add: run validate_passthrough_error [OF keys infra built m q])
                next
                  case None
                  with pass have q: "CheckCloudCredPassthrough r c = (b', None)" by simp
                  show ?thesis
                    by (rule passthrough_result [OF fetched keys infra built m q])
                       (simp add: run validate_passthrough_result [OF keys infra built m q])
                qed
              qed
            qed
          qed
        qed
      qed
    qed
  qed
qed

section \<open>The event filter admits exactly the fixed object\<close>

text \<open>
  Claim C7. For a create, update or delete notification the filter is true if and only
  if the namespace of the notified object is \<^verbatim>\<open>kube-system\<close> and its name is
  \<^verbatim>\<open>aws-creds\<close>; the three kinds use the same check, a function of the object alone.
\<close>

theorem event_filter_iff:
  "p e = (Namespace (notified e) = ''kube-system'' \<and> Name (notified e) = ''aws-creds'')"
  by (cases e)
     (simp_all add: UpdateFunc_def CreateFunc_def DeleteFunc_def cloudCredSecretObjectCheck_def
        CloudCredSecretNamespace_def CloudCredSecretName_def)

section \<open>A mint-capable credential is annotated mint\<close>

text \<open>
  Claim C1 as stated, at a concrete run: the creation probe returns true without an
  error, the write of the annotation fails with a conflict, and the reconciliation
  returns that error instead of success.
\<close>

theorem mint_true_failed_write_counterexample:
  "CallCheckCloudCredCreation 7 True None
     \<in> set (calls_made (reconciliation
          (probing_cluster (True, None) (False, None) (Some (StatusError ''conflict'')))
          example_request Map.empty))
   \<and> returned_error (reconciliation
          (probing_cluster (True, None) (False, None) (Some (StatusError ''conflict'')))
          example_request Map.empty) = Some (StatusError ''conflict'')"
  by (simp add: calls_made_def returned_error_def run_defs example_defs)

text \<open>
  Claim C1, amended. In every reconciliation in which the creation probe (CanMint)
  returns true without an error, exactly one annotation write is made, the mode it
  writes is \<^verbatim>\<open>mint\<close>, the passthrough probe is not called, and the reconciliation
  returns what that write returns: success when the write succeeds, the error of the
  write otherwise.
\<close>

theorem mint_true_writes_mint:
  assumes "CallCheckCloudCredCreation c True None
             \<in> set (calls_made (reconciliation r request objs))"
  shows "map (\<lambda>(s, e). (mode_of s, e))
             (annotation_writes (calls_made (reconciliation r request objs)))
           = [(Some MintAnnotation, returned_error (reconciliation r request objs))]
       \<and> \<not> list_ex is_passthrough_probe (calls_made (reconciliation r request objs))"
  using assms
  by (cases rule: reconciliation_cases [of r request objs]) (simp_all add: observe_defs)

text \<open>
  The amended claim at a run where the passthrough probe would return true as well and
  the write succeeds: the mode written is \<^verbatim>\<open>mint\<close> and the reconciliation succeeds.
\<close>

theorem mint_true_writes_mint_witness:
  "CallCheckCloudCredCreation 7 True None
     \<in> set (calls_made (reconciliation (probing_cluster (True, None) (True, None) None)
          example_request Map.empty))
   \<and> map (\<lambda>(s, e). (mode_of s, e))
         (annotation_writes (calls_made (reconciliation
            (probing_cluster (True, None) (True, None) None) example_request Map.empty)))
       = [(Some MintAnnotation,
           returned_error (reconciliation (probing_cluster (True, None) (True, None) None)
             example_request Map.empty))]
   \<and> \<not> list_ex is_passthrough_probe (calls_made (reconciliation
          (probing_cluster (True, None) (True, None) None) example_request Map.empty))
   \<and> returned_error (reconciliation (probing_cluster (True, None) (True, None) None)
          example_request Map.empty) = None"
proof -
  have h: "CallCheckCloudCredCreation 7 True None
     \<in> set (calls_made (reconciliation (probing_cluster (True, None) (True, None) None)
          example_request Map.empty))"
    by (simp add: calls_made_def run_defs example_defs)
  have ok: "returned_error (reconciliation (probing_cluster (True, None) (True, None) None)
          example_request Map.empty) = None"
    by (simp add: returned_error_def run_defs example_defs)
  show ?thesis using h ok mint_true_writes_mint [OF h] by blast
qed

section \<open>A secret without a required field is annotated insufficient\<close>

text \<open>
  Claim C2 as stated, at a concrete run: the fetched secret has no
  \<^verbatim>\<open>aws_secret_access_key\<close>, the write of the annotation fails with a conflict, and the
  reconciliation returns that error; the cluster still holds no annotated object.
\<close>

theorem missing_field_failed_write_counterexample:
  "Get (fake_collaborators (Inr (example_secret missing_key_data)) (Inr example_infra) (Inr 7)
          (True, None) (True, None) (Some (StatusError ''conflict''))) example_request
     = Inr (example_secret missing_key_data)
   \<and> Data (example_secret missing_key_data) AwsSecretAccessKeyName = None
   \<and> returned_error (reconciliation
          (fake_collaborators (Inr (example_secret missing_key_data)) (Inr example_infra) (Inr 7)
             (True, None) (True, None) (Some (StatusError ''conflict'')))
          example_request Map.empty) = Some (StatusError ''conflict'')
   \<and> persisted (reconciliation
          (fake_collaborators (Inr (example_secret missing_key_data)) (Inr example_infra) (Inr 7)
             (True, None) (True, None) (Some (StatusError ''conflict'')))
          example_request Map.empty) example_request = None"
  by (simp add: returned_error_def persisted_def run_defs example_defs)

text \<open>
  Claim C2, amended. For every fetched credential object that lacks
  \<^verbatim>\<open>aws_access_key_id\<close> or \<^verbatim>\<open>aws_secret_access_key\<close>, the reconciliation makes exactly
  one annotation write, of the mode \<^verbatim>\<open>insufficient\<close>, and returns what that write
  returns: no error when the write succeeds, the error of the write otherwise. No
  infra-name lookup, client construction or probe takes place.
\<close>

theorem missing_field_writes_insufficient:
  assumes "Get r request = Inr secret"
    and "Data secret AwsAccessKeyName = None \<or> Data secret AwsSecretAccessKeyName = None"
  shows "map (\<lambda>(s, e). (mode_of s, e))
             (annotation_writes (calls_made (reconciliation r request objs)))
           = [(Some InsufficientAnnotation, returned_error (reconciliation r request objs))]
       \<and> \<not> list_ex is_cloud_call (calls_made (reconciliation r request objs))"
  using assms
  by (cases rule: reconciliation_cases [of r request objs]) (auto simp add: observe_defs)

text \<open>
  The amended claim at a run where the secret has no \<^verbatim>\<open>aws_secret_access_key\<close> and the
  write succeeds: the reconciliation returns no error.
\<close>

theorem missing_field_writes_insufficient_witness:
  "map (\<lambda>(s, e). (mode_of s, e))
      (annotation_writes (calls_made (reconciliation
         (fake_collaborators (Inr (example_secret missing_key_data)) (Inr example_infra) (Inr 7)
            (True, None) (True, None) None)
         example_request Map.empty)))
     = [(Some InsufficientAnnotation,
         returned_error (reconciliation
           (fake_collaborators (Inr (example_secret missing_key_data)) (Inr example_infra) (Inr 7)
              (True, None) (True, None) None)
           example_request Map.empty))]
   \<and> \<not> list_ex is_cloud_call (calls_made (reconciliation
         (fake_collaborators (Inr (example_secret missing_key_data)) (Inr example_infra) (Inr 7)
            (True, None) (True, None) None)
         example_request Map.empty))
   \<and> returned_error (reconciliation
         (fake_collaborators (Inr (example_secret missing_key_data)) (Inr example_infra) (Inr 7)
            (True, None) (True, None) None)
         example_request Map.empty) = None"
proof -
  have fetched: "Get (fake_collaborators (Inr (example_secret missing_key_data)) (Inr example_infra)
      (Inr 7) (True, None) (True, None) None) example_request
      = Inr (example_secret missing_key_data)"
    by (simp add: fake_collaborators_def)
  have missing: "Data (example_secret missing_key_data) AwsAccessKeyName = None
      \<or> Data (example_secret missing_key_data) AwsSecretAccessKeyName = None"
    by (simp add: example_defs AwsAccessKeyName_def AwsSecretAccessKeyName_def)
  have ok: "returned_error (reconciliation
         (fake_collaborators (Inr (example_secret missing_key_data)) (Inr example_infra) (Inr 7)
            (True, None) (True, None) None)
         example_request Map.empty) = None"
    by (simp add: returned_error_def run_defs example_defs)
  show ?thesis
    using ok missing_field_writes_insufficient [OF fetched missing, of Map.empty] by blast
qed

section \<open>Neither capability: insufficient\<close>

text \<open>
  Claim C5 as stated, at a concrete run: both probes return false without an error, the
  write of the annotation fails with a conflict, and the reconciliation returns that
  error instead of success.
\<close>

theorem both_false_failed_write_counterexample:
  "CallCheckCloudCredCreation 7 False None
     \<in> set (calls_made (reconciliation
          (probing_cluster (False, None) (False, None) (Some (StatusError ''conflict'')))
          example_request Map.empty))
   \<and> CallCheckCloudCredPassthrough 7 False None
     \<in> set (calls_made (reconciliation
          (probing_cluster (False, None) (False, None) (Some (StatusError ''conflict'')))
          example_request Map.empty))
   \<and> returned_error (reconciliation
          (probing_cluster (False, None) (False, None) (Some (StatusError ''conflict'')))
          example_request Map.empty) = Some (StatusError ''conflict'')"
  by (simp add: calls_made_def returned_error_def run_defs example_defs)

text \<open>
  Claim C5, amended. In every reconciliation in which the creation probe returns false
  without an error and the passthrough probe returns false without an error, exactly
  one annotation write is made, of the mode \<^verbatim>\<open>insufficient\<close>, and the reconciliation
  returns what that write returns: success when the write succeeds, the error of the
  write otherwise.
\<close>

theorem both_false_writes_insufficient:
  assumes "CallCheckCloudCredCreation c False None
             \<in> set (calls_made (reconciliation r request objs))"
    and "CallCheckCloudCredPassthrough c' False None
             \<in> set (calls_made (reconciliation r request objs))"
  shows "map (\<lambda>(s, e). (mode_of s, e))
             (annotation_writes (calls_made (reconciliation r request objs)))
           = [(Some InsufficientAnnotation, returned_error (reconciliation r request objs))]"
  using assms
  by (cases rule: reconciliation_cases [of r request objs]) (simp_all add: observe_defs)

text \<open>
  The amended claim at a run where both probes return false and the write succeeds: the
  reconciliation succeeds.
\<close>

theorem both_false_writes_insufficient_witness:
  "map (\<lambda>(s, e). (mode_of s, e))
      (annotation_writes (calls_made (reconciliation
         (probing_cluster (False, None) (False, None) None) example_request Map.empty)))
     = [(Some InsufficientAnnotation,
         returned_error (reconciliation (probing_cluster (False, None) (False, None) None)
           example_request Map.empty))]
   \<and> returned_error (reconciliation (probing_cluster (False, None) (False, None) None)
         example_request Map.empty) = None"
proof -
  have mint: "CallCheckCloudCredCreation 7 False None
     \<in> set (calls_made (reconciliation (probing_cluster (False, None) (False, None) None)
          example_request Map.empty))"
    by (simp add: calls_made_def run_defs example_defs)
  have pass: "CallCheckCloudCredPassthrough 7 False None
     \<in> set (calls_made (reconciliation (probing_cluster (False, None) (False, None) None)
          example_request Map.empty))"
    by (simp add: calls_made_def run_defs example_defs)
  have ok: "returned_error (reconciliation (probing_cluster (False, None) (False, None) None)
         example_request Map.empty) = None"
    by (simp add: returned_error_def run_defs example_defs)
  show ?thesis using ok both_false_writes_insufficient [OF mint pass] by blast
qed

section \<open>A failed probe\<close>

text \<open>
  Claim C3 as stated, at a concrete run: the creation probe fails with the error
  \<^verbatim>\<open>throttled\<close> and the write of the annotation fails with a conflict. The error the
  reconciliation returns is not the error of the probe but a new one built around its
  message, and the object the cluster holds carries no mode annotation afterwards.
\<close>

theorem probe_error_counterexample:
  "CallCheckCloudCredCreation 7 False (Some (StatusError ''throttled''))
     \<in> set (calls_made (reconciliation
          (probing_cluster (False, Some (StatusError ''throttled'')) (False, None)
             (Some (StatusError ''conflict'')))
          example_request [example_request \<mapsto> example_secret example_data]))
   \<and> returned_error (reconciliation
          (probing_cluster (False, Some (StatusError ''throttled'')) (False, None)
             (Some (StatusError ''conflict'')))
          example_request [example_request \<mapsto> example_secret example_data])
       = Some (ErrorString ''failed checking create cloud creds: throttled'')
   \<and> returned_error (reconciliation
          (probing_cluster (False, Some (StatusError ''throttled'')) (False, None)
             (Some (StatusError ''conflict'')))
          example_request [example_request \<mapsto> example_secret example_data])
       \<noteq> Some (StatusError ''throttled'')
   \<and> map_option mode_of (persisted (reconciliation
          (probing_cluster (False, Some (StatusError ''throttled'')) (False, None)
             (Some (StatusError ''conflict'')))
          example_request [example_request \<mapsto> example_secret example_data]) example_request)
       = Some None"
  by (simp add: calls_made_def returned_error_def persisted_def mode_of_def run_defs example_defs)

text \<open>
  Claim C3, amended. In every reconciliation in which the creation probe returns an
  error, or the creation probe returns false without an error and the passthrough probe
  returns an error, exactly one annotation write is attempted, of the mode
  \<^verbatim>\<open>insufficient\<close> (whether that write succeeds is not reported), and the
  reconciliation returns a new error whose message is the message of the probe's error
  after the prefix \<^verbatim>\<open>failed checking create cloud creds: \<close>, respectively
  \<^verbatim>\<open>failed checking passthrough cloud creds: \<close>. A passthrough probe is only ever
  called after the creation probe returned false without an error.
\<close>

theorem probe_error_writes_insufficient_and_wraps:
  "(CallCheckCloudCredCreation c b (Some e) \<in> set (calls_made (reconciliation r request objs))
      \<longrightarrow> map (mode_of \<circ> fst) (annotation_writes (calls_made (reconciliation r request objs)))
            = [Some InsufficientAnnotation]
        \<and> returned_error (reconciliation r request objs)
            = Some (ErrorString (''failed checking create cloud creds: '' @ Error e)))
   \<and> (CallCheckCloudCredPassthrough c b (Some e) \<in> set (calls_made (reconciliation r request objs))
      \<longrightarrow> CallCheckCloudCredCreation c False None
            \<in> set (calls_made (reconciliation r request objs))
        \<and> map (mode_of \<circ> fst) (annotation_writes (calls_made (reconciliation r request objs)))
            = [Some InsufficientAnnotation]
        \<and> returned_error (reconciliation r request objs)
            = Some (ErrorString (''failed checking passthrough cloud creds: '' @ Error e)))"
  by (cases rule: reconciliation_cases [of r request objs])
     (simp_all add: observe_defs Errorf_def)

text \<open>
  The amended claim at two runs with a successful write: one where the creation probe
  fails, one where the passthrough probe fails after the creation probe returned false.
\<close>

theorem probe_error_writes_insufficient_and_wraps_witness:
  "map (mode_of \<circ> fst) (annotation_writes (calls_made (reconciliation
       (probing_cluster (False, Some (StatusError ''throttled'')) (True, None) None)
       example_request Map.empty)))
     = [Some InsufficientAnnotation]
   \<and> returned_error (reconciliation
       (probing_cluster (False, Some (StatusError ''throttled'')) (True, None) None)
       example_request Map.empty)
     = Some (ErrorString (''failed checking create cloud creds: ''
               @ Error (StatusError ''throttled'')))
   \<and> CallCheckCloudCredCreation 7 False None
       \<in> set (calls_made (reconciliation
            (probing_cluster (False, None) (True, Some (StatusError ''denied'')) None)
            example_request Map.empty))
   \<and> map (mode_of \<circ> fst) (annotation_writes (calls_made (reconciliation
       (probing_cluster (False, None) (True, Some (StatusError ''denied'')) None)
       example_request Map.empty)))
     = [Some InsufficientAnnotation]
   \<and> returned_error (reconciliation
       (probing_cluster (False, None) (True, Some (StatusError ''denied'')) None)
       example_request Map.empty)
     = Some (ErrorString (''failed checking passthrough cloud creds: ''
               @ Error (StatusError ''denied'')))"
proof -
  have mint: "CallCheckCloudCredCreation 7 False (Some (StatusError ''throttled''))
     \<in> set (calls_made (reconciliation
          (probing_cluster (False, Some (StatusError ''throttled'')) (True, None) None)
          example_request Map.empty))"
    by (simp add: calls_made_def run_defs example_defs)
  have pass: "CallCheckCloudCredPassthrough 7 True (Some (StatusError ''denied''))
     \<in> set (calls_made (reconciliation
          (probing_cluster (False, None) (True, Some (StatusError ''denied'')) None)
          example_request Map.empty))"
    by (simp add: calls_made_def run_defs example_defs)
  show ?thesis
    using mint pass
      probe_error_writes_insufficient_and_wraps
        [of 7 False "StatusError ''throttled''"
            "probing_cluster (False, Some (StatusError ''throttled'')) (True, None) None"
            example_request Map.empty]
      probe_error_writes_insufficient_and_wraps
        [of 7 True "StatusError ''denied''"
            "probing_cluster (False, None) (True, Some (StatusError ''denied'')) None"
            example_request Map.empty]
    by blast
qed

section \<open>Which failure a reconciliation reports\<close>

text \<open>
  Claim C4 as stated, at a concrete run: the creation probe fails with \<^verbatim>\<open>throttled\<close>
  and the annotation write made in that branch fails with \<^verbatim>\<open>conflict\<close>. The
  reconciliation returns the error built from the probe's; the failure of the write is
  not returned.
\<close>

theorem write_failure_after_probe_error_counterexample:
  "map failure (calls_made (reconciliation
       (probing_cluster (False, Some (StatusError ''throttled'')) (False, None)
          (Some (StatusError ''conflict'')))
       example_request Map.empty))
     = [None, None, None, Some (StatusError ''throttled''), Some (StatusError ''conflict'')]
   \<and> map snd (annotation_writes (calls_made (reconciliation
       (probing_cluster (False, Some (StatusError ''throttled'')) (False, None)
          (Some (StatusError ''conflict'')))
       example_request Map.empty)))
     = [Some (StatusError ''conflict'')]
   \<and> returned_error (reconciliation
       (probing_cluster (False, Some (StatusError ''throttled'')) (False, None)
          (Some (StatusError ''conflict'')))
       example_request Map.empty)
     = Some (ErrorString ''failed checking create cloud creds: throttled'')"
  by (simp add: calls_made_def returned_error_def run_defs example_defs)

text \<open>
  Claim C4, amended. A reconciliation returns success exactly when no collaborator call
  it made failed. Otherwise it returns the failure of the first collaborator call that
  failed: the error itself for the fetch, the infra-name lookup and an annotation write,
  and a new error with a context prefix before the message for the client construction
  and the two probes. The annotation write made after a failed probe comes second: when
  it fails too, the error returned is still the one built from the probe's.
\<close>

theorem first_failure_is_returned:
  "returned_error (reconciliation r request objs)
     = (case find (\<lambda>x. failure x \<noteq> None) (calls_made (reconciliation r request objs)) of
          None \<Rightarrow> None
        | Some x \<Rightarrow> surfaced x)
   \<and> (returned_error (reconciliation r request objs) = None)
     = list_all (\<lambda>x. failure x = None) (calls_made (reconciliation r request objs))"
  by (cases rule: reconciliation_cases [of r request objs])
     (auto simp add: returned_error_def calls_made_def Errorf_def)

text \<open>
  The amended claim at a run where the creation probe fails and the write succeeds, and
  at a run where nothing fails.
\<close>

theorem first_failure_is_returned_witness:
  "returned_error (reconciliation
       (probing_cluster (False, Some (StatusError ''throttled'')) (False, None) None)
       example_request Map.empty)
     = surfaced (CallCheckCloudCredCreation (7::nat) False (Some (StatusError ''throttled'')))
   \<and> returned_error (reconciliation (probing_cluster (False, None) (True, None) None)
       example_request Map.empty) = None"
proof -
  have first: "find (\<lambda>x. failure x \<noteq> None) (calls_made (reconciliation
       (probing_cluster (False, Some (StatusError ''throttled'')) (False, None) None)
       example_request Map.empty))
     = Some (CallCheckCloudCredCreation 7 False (Some (StatusError ''throttled'')))"
    by (simp add: calls_made_def run_defs example_defs)
  have none: "list_all (\<lambda>x. failure x = None) (calls_made (reconciliation
       (probing_cluster (False, None) (True, None) None) example_request Map.empty))"
    by (simp add: calls_made_def run_defs example_defs)
  have a: "returned_error (reconciliation
       (probing_cluster (False, Some (StatusError ''throttled'')) (False, None) None)
       example_request Map.empty)
     = surfaced (CallCheckCloudCredCreation (7::nat) False (Some (StatusError ''throttled'')))"
    using first_failure_is_returned
        [of "probing_cluster (False, Some (StatusError ''throttled'')) (False, None) None"
            example_request Map.empty, THEN conjunct1]
    by (simp only: first option.case)
  have b: "returned_error (reconciliation (probing_cluster (False, None) (True, None) None)
       example_request Map.empty) = None"
    using none first_failure_is_returned
        [of "probing_cluster (False, None) (True, None) None" example_request Map.empty,
         THEN conjunct2]
    by blast
  show ?thesis using a b by (rule conjI)
qed

section \<open>How many annotation writes a reconciliation makes\<close>

text \<open>
  Claim C6. A reconciliation in which the fetch, the infra-name lookup or the client
  construction fails makes no annotation write, returns an error (the error of the fetch
  or of the lookup itself, the error of the construction behind the prefix
  \<^verbatim>\<open>error creating aws client: \<close>) and leaves the objects of the cluster as they were.
  Every other reconciliation reaches a classification (a missing field, a probe answer or
  a probe error) and makes exactly one annotation write.
\<close>

theorem one_write_per_classification:
  "(CallGet key (Some e) \<in> set (calls_made (reconciliation r request objs))
      \<longrightarrow> annotation_writes (calls_made (reconciliation r request objs)) = []
        \<and> returned_error (reconciliation r request objs) = Some e
        \<and> persisted (reconciliation r request objs) = objs)
   \<and> (CallLoadInfrastructureName (Some e) \<in> set (calls_made (reconciliation r request objs))
      \<longrightarrow> annotation_writes (calls_made (reconciliation r request objs)) = []
        \<and> returned_error (reconciliation r request objs) = Some e
        \<and> persisted (reconciliation r request objs) = objs)
   \<and> (CallAWSClientBuilder creds infraName (Some e)
        \<in> set (calls_made (reconciliation r request objs))
      \<longrightarrow> annotation_writes (calls_made (reconciliation r request objs)) = []
        \<and> returned_error (reconciliation r request objs)
            = Some (ErrorString (''error creating aws client: '' @ Error e))
        \<and> persisted (reconciliation r request objs) = objs)
   \<and> length (annotation_writes (calls_made (reconciliation r request objs)))
       = (if list_ex fails_before_classification (calls_made (reconciliation r request objs))
          then 0 else 1)"
  by (cases rule: reconciliation_cases [of r request objs])
     (simp_all add: returned_error_def calls_made_def persisted_def Errorf_def)

text \<open>
  Claim C6 at four runs over a cluster that holds the secret: the fetch fails, the
  infra-name lookup fails, the client construction fails (no write, an error, the
  objects unchanged), and the passthrough probe answers true (one write).
\<close>

theorem one_write_per_classification_witness:
  "annotation_writes (calls_made (reconciliation
       (fake_collaborators (Inl (StatusError ''not found'')) (Inr example_infra) (Inr 7)
          (True, None) (True, None) None)
       example_request [example_request \<mapsto> example_secret example_data])) = []
   \<and> returned_error (reconciliation
       (fake_collaborators (Inl (StatusError ''not found'')) (Inr example_infra) (Inr 7)
          (True, None) (True, None) None)
       example_request [example_request \<mapsto> example_secret example_data])
     = Some (StatusError ''not found'')
   \<and> persisted (reconciliation
       (fake_collaborators (Inl (StatusError ''not found'')) (Inr example_infra) (Inr 7)
          (True, None) (True, None) None)
       example_request [example_request \<mapsto> example_secret example_data])
     = [example_request \<mapsto> example_secret example_data]
   \<and> annotation_writes (calls_made (reconciliation
       (fake_collaborators (Inr (example_secret example_data))
          (Inl (StatusError ''no infrastructure'')) (Inr 7) (True, None) (True, None) None)
       example_request [example_request \<mapsto> example_secret example_data])) = []
   \<and> returned_error (reconciliation
       (fake_collaborators (Inr (example_secret example_data))
          (Inl (StatusError ''no infrastructure'')) (Inr 7) (True, None) (True, None) None)
       example_request [example_request \<mapsto> example_secret example_data])
     = Some (StatusError ''no infrastructure'')
   \<and> persisted (reconciliation
       (fake_collaborators (Inr (example_secret example_data))
          (Inl (StatusError ''no infrastructure'')) (Inr 7) (True, None) (True, None) None)
       example_request [example_request \<mapsto> example_secret example_data])
     = [example_request \<mapsto> example_secret example_data]
   \<and> annotation_writes (calls_made (reconciliation
       (fake_collaborators (Inr (example_secret example_data)) (Inr example_infra)
          (Inl (StatusError ''no region'')) (True, None) (True, None) None)
       example_request [example_request \<mapsto> example_secret example_data])) = []
   \<and> returned_error (reconciliation
       (fake_collaborators (Inr (example_secret example_data)) (Inr example_infra)
          (Inl (StatusError ''no region'')) (True, None) (True, None) None)
       example_request [example_request \<mapsto> example_secret example_data])
     = Some (ErrorString (''error creating aws client: '' @ Error (StatusError ''no region'')))
   \<and> persisted (reconciliation
       (fake_collaborators (Inr (example_secret example_data)) (Inr example_infra)
          (Inl (StatusError ''no region'')) (True, None) (True, None) None)
       example_request [example_request \<mapsto> example_secret example_data])
     = [example_request \<mapsto> example_secret example_data]
   \<and> length (annotation_writes (calls_made (reconciliation
       (probing_cluster (False, None) (True, None) None)
       example_request [example_request \<mapsto> example_secret example_data]))) = 1"
proof -
  have fetch: "CallGet example_request (Some (StatusError ''not found''))
     \<in> set (calls_made (reconciliation
       (fake_collaborators (Inl (StatusError ''not found'')) (Inr example_infra) (Inr 7)
          (True, None) (True, None) None)
       example_request [example_request \<mapsto> example_secret example_data]))"
    by (simp add: calls_made_def run_defs example_defs)
  have infra: "CallLoadInfrastructureName (Some (StatusError ''no infrastructure''))
     \<in> set (calls_made (reconciliation
       (fake_collaborators (Inr (example_secret example_data))
          (Inl (StatusError ''no infrastructure'')) (Inr 7) (True, None) (True, None) None)
       example_request [example_request \<mapsto> example_secret example_data]))"
    by (simp add: calls_made_def run_defs example_defs)
  have build: "CallAWSClientBuilder
       \<lparr>AccessKeyID = ''AKIAEXAMPLE'', SecretAccessKey = ''wJalrEXAMPLEKEY''\<rparr>
       ''cluster-7xk2p'' (Some (StatusError ''no region''))
     \<in> set (calls_made (reconciliation
       (fake_collaborators (Inr (example_secret example_data)) (Inr example_infra)
          (Inl (StatusError ''no region'')) (True, None) (True, None) None)
       example_request [example_request \<mapsto> example_secret example_data]))"
    by (simp add: calls_made_def run_defs example_defs)
  have classified: "\<not> list_ex fails_before_classification (calls_made (reconciliation
       (probing_cluster (False, None) (True, None) None)
       example_request [example_request \<mapsto> example_secret example_data]))"
    by (simp add: calls_made_def run_defs example_defs)
  have a: "annotation_writes (calls_made (reconciliation
       (fake_collaborators (Inl (StatusError ''not found'')) (Inr example_infra) (Inr 7)
          (True, None) (True, None) None)
       example_request [example_request \<mapsto> example_secret example_data])) = []
   \<and> returned_error (reconciliation
       (fake_collaborators (Inl (StatusError ''not found'')) (Inr example_infra) (Inr 7)
          (True, None) (True, None) None)
       example_request [example_request \<mapsto> example_secret example_data])
     = Some (StatusError ''not found'')
   \<and> persisted (reconciliation
       (fake_collaborators (Inl (StatusError ''not found'')) (Inr example_infra) (Inr 7)
          (True, None) (True, None) None)
       example_request [example_request \<mapsto> example_secret example_data])
     = [example_request \<mapsto> example_secret example_data]"
    using fetch one_write_per_classification
      [of example_request "StatusError ''not found''"
          "fake_collaborators (Inl (StatusError ''not found'')) (Inr example_infra) (Inr 7)
             (True, None) (True, None) None"
          example_request "[example_request \<mapsto> example_secret example_data]"]
    by blast
  have b: "annotation_writes (calls_made (reconciliation
       (fake_collaborators (Inr (example_secret example_data))
          (Inl (StatusError ''no infrastructure'')) (Inr 7) (True, None) (True, None) None)
       example_request [example_request \<mapsto> example_secret example_data])) = []
   \<and> returned_error (reconciliation
       (fake_collaborators (Inr (example_secret example_data))
          (Inl (StatusError ''no infrastructure'')) (Inr 7) (True, None) (True, None) None)
       example_request [example_request \<mapsto> example_secret example_data])
     = Some (StatusError ''no infrastructure'')
   \<and> persisted (reconciliation
       (fake_collaborators (Inr (example_secret example_data))
          (Inl (StatusError ''no infrastructure'')) (Inr 7) (True, None) (True, None) None)
       example_request [example_request \<mapsto> example_secret example_data])
     = [example_request \<mapsto> example_secret example_data]"
    using infra one_write_per_classification
      [of _ "StatusError ''no infrastructure''"
          "fake_collaborators (Inr (example_secret example_data))
             (Inl (StatusError ''no infrastructure'')) (Inr 7) (True, None) (True, None) None"
          example_request "[example_request \<mapsto> example_secret example_data]"]
    by blast
  have c: "annotation_writes (calls_made (reconciliation
       (fake_collaborators (Inr (example_secret example_data)) (Inr example_infra)
          (Inl (StatusError ''no region'')) (True, None) (True, None) None)
       example_request [example_request \<mapsto> example_secret example_data])) = []
   \<and> returned_error (reconciliation
       (fake_collaborators (Inr (example_secret example_data)) (Inr example_infra)
          (Inl (StatusError ''no region'')) (True, None) (True, None) None)
       example_request [example_request \<mapsto> example_secret example_data])
     = Some (ErrorString (''error creating aws client: '' @ Error (StatusError ''no region'')))
   \<and> persisted (reconciliation
       (fake_collaborators (Inr (example_secret example_data)) (Inr example_infra)
          (Inl (StatusError ''no region'')) (True, None) (True, None) None)
       example_request [example_request \<mapsto> example_secret example_data])
     = [example_request \<mapsto> example_secret example_data]"
    using build one_write_per_classification
      [of _ "StatusError ''no region''"
          "fake_collaborators (Inr (example_secret example_data)) (Inr example_infra)
             (Inl (StatusError ''no region'')) (True, None) (True, None) None"
          example_request "[example_request \<mapsto> example_secret example_data]"
          "\<lparr>AccessKeyID = ''AKIAEXAMPLE'', SecretAccessKey = ''wJalrEXAMPLEKEY''\<rparr>"
          "''cluster-7xk2p''"]
    by blast
  have d: "length (annotation_writes (calls_made (reconciliation
       (probing_cluster (False, None) (True, None) None)
       example_request [example_request \<mapsto> example_secret example_data]))) = 1"
    using classified one_write_per_classification
      [of _ _ "probing_cluster (False, None) (True, None) None"
          example_request "[example_request \<mapsto> example_secret example_data]"]
    by simp
  show ?thesis using a b c d by blast
qed

section \<open>The annotation write\<close>

text \<open>
  Claim C8. \<^verbatim>\<open>updateSecretAnnotations\<close> makes one \<^verbatim>\<open>Update\<close> call and returns its
  result. The object it hands over is the secret with nothing but its annotations
  replaced; the new annotations are a map (never \<^verbatim>\<open>nil\<close>) that holds the value under
  the annotation key and, under every other key, what the old annotations held (nothing,
  when they were \<^verbatim>\<open>nil\<close>). When the call succeeds the cluster holds that object under
  the namespace and name of the secret; when it fails the objects stay as they were.
\<close>

theorem updateSecretAnnotations_frame:
  "\<exists>m. calls (snd (updateSecretAnnotations r secret v w))
         = calls w @ [CallUpdate (secret\<lparr>Annotations := Some m\<rparr>)
                        (fst (updateSecretAnnotations r secret v w))]
     \<and> fst (updateSecretAnnotations r secret v w) = Update r (secret\<lparr>Annotations := Some m\<rparr>)
     \<and> m AnnotationKey = Some v
     \<and> (\<forall>k. k \<noteq> AnnotationKey \<longrightarrow>
           m k = (case Annotations secret of None \<Rightarrow> None | Some a \<Rightarrow> a k))
     \<and> objects (snd (updateSecretAnnotations r secret v w))
         = (case fst (updateSecretAnnotations r secret v w) of
              None \<Rightarrow> (objects w)((Namespace secret, Name secret)
                         \<mapsto> secret\<lparr>Annotations := Some m\<rparr>)
            | Some err \<Rightarrow> objects w)"
  by (rule exI [of _ "(case Annotations secret of None \<Rightarrow> Map.empty | Some a \<Rightarrow> a)
                        (AnnotationKey \<mapsto> v)"])
     (simp add: updateSecretAnnotations_run annotated_def stored_def split: option.split)

text \<open>
  Claim C8 at a secret that carries the annotation \<^verbatim>\<open>owner\<close>: the object written keeps
  that annotation, its labels, its data, its resource version and its type, and has the
  mode under the annotation key.
\<close>

theorem updateSecretAnnotations_frame_witness:
  "(\<exists>m. calls (snd (updateSecretAnnotations (probing_cluster (True, None) (True, None) None)
                     (example_secret example_data) MintAnnotation
                     \<lparr>objects = Map.empty, calls = []\<rparr>))
         = [CallUpdate ((example_secret example_data)\<lparr>Annotations := Some m\<rparr>) None]
       \<and> m AnnotationKey = Some ''mint''
       \<and> m ''owner'' = Some ''installer'')
   \<and> ''owner'' \<noteq> AnnotationKey"
proof -
  have differ: "''owner'' \<noteq> AnnotationKey"
    by (simp add: AnnotationKey_def)
  have ok: "fst (updateSecretAnnotations (probing_cluster (True, None) (True, None) None)
                     (example_secret example_data) MintAnnotation
                     \<lparr>objects = Map.empty, calls = []\<rparr>) = None"
    by (simp add: updateSecretAnnotations_def clientUpdate_def Let_def example_defs)
  have old: "(case Annotations (example_secret example_data) of
                None \<Rightarrow> None | Some a \<Rightarrow> a ''owner'') = Some ''installer''"
    by (simp add: example_secret_def)
  from updateSecretAnnotations_frame
         [of "probing_cluster (True, None) (True, None) None" "example_secret example_data"
             MintAnnotation "\<lparr>objects = Map.empty, calls = []\<rparr>"]
  obtain m where
    m: "calls (snd (updateSecretAnnotations (probing_cluster (True, None) (True, None) None)
                     (example_secret example_data) MintAnnotation
                     \<lparr>objects = Map.empty, calls = []\<rparr>))
         = calls \<lparr>objects = Map.empty, calls = []\<rparr>
           @ [CallUpdate ((example_secret example_data)\<lparr>Annotations := Some m\<rparr>)
                (fst (updateSecretAnnotations (probing_cluster (True, None) (True, None) None)
                     (example_secret example_data) MintAnnotation
                     \<lparr>objects = Map.empty, calls = []\<rparr>))]"
      "m AnnotationKey = Some MintAnnotation"
      "\<forall>k. k \<noteq> AnnotationKey \<longrightarrow>
           m k = (case Annotations (example_secret example_data) of
                    None \<Rightarrow> None | Some a \<Rightarrow> a k)"
    by blast
  from m(3) differ old have kept: "m ''owner'' = Some ''installer''"
    by simp
  from m(1) ok have written:
    "calls (snd (updateSecretAnnotations (probing_cluster (True, None) (True, None) None)
                     (example_secret example_data) MintAnnotation
                     \<lparr>objects = Map.empty, calls = []\<rparr>))
       = [CallUpdate ((example_secret example_data)\<lparr>Annotations := Some m\<rparr>) None]"
    by simp
  from m(2) have mode: "m AnnotationKey = Some ''mint''"
    by (simp add: MintAnnotation_def)
  from written mode kept differ show ?thesis by blast
qed

section \<open>The values written under the annotation key\<close>

text \<open>
  Claim C9. Every object a reconciliation hands to \<^verbatim>\<open>Update\<close> has an annotation map
  that holds, under \<^verbatim>\<open>cloudcredential.openshift.io/mode\<close>, one of the strings
  \<^verbatim>\<open>mint\<close>, \<^verbatim>\<open>passthrough\<close> and \<^verbatim>\<open>insufficient\<close>; and every object the cluster holds
  afterwards is either the one it held before or such an object.
\<close>

theorem written_mode_is_one_of_three:
  "(\<forall>x \<in> set (annotation_writes (calls_made (reconciliation r request objs))).
      (\<exists>m. Annotations (fst x) = Some m
         \<and> m ''cloudcredential.openshift.io/mode''
             \<in> {Some ''mint'', Some ''passthrough'', Some ''insufficient''}))
   \<and> (\<forall>key. persisted (reconciliation r request objs) key = objs key
         \<or> (\<exists>s m. persisted (reconciliation r request objs) key = Some s
              \<and> Annotations s = Some m
              \<and> m ''cloudcredential.openshift.io/mode''
                  \<in> {Some ''mint'', Some ''passthrough'', Some ''insufficient''}))"
  by (cases rule: reconciliation_cases [of r request objs])
     (simp_all add: observe_defs AnnotationKey_def stored_def split: option.split)

text \<open>
  Claim C9 at a run where the passthrough probe answers true: the one object written
  carries \<^verbatim>\<open>passthrough\<close>.
\<close>

theorem written_mode_is_one_of_three_witness:
  "map (mode_of \<circ> fst) (annotation_writes (calls_made (reconciliation
       (probing_cluster (False, None) (True, None) None) example_request Map.empty)))
     = [Some ''passthrough'']
   \<and> list_all (\<lambda>x. \<exists>m. Annotations (fst x) = Some m
         \<and> m ''cloudcredential.openshift.io/mode''
             \<in> {Some ''mint'', Some ''passthrough'', Some ''insufficient''})
       (annotation_writes (calls_made (reconciliation
          (probing_cluster (False, None) (True, None) None) example_request Map.empty)))"
proof -
  have one: "map (mode_of \<circ> fst) (annotation_writes (calls_made (reconciliation
       (probing_cluster (False, None) (True, None) None) example_request Map.empty)))
     = [Some ''passthrough'']"
    by (simp add: calls_made_def mode_of_def PassthroughAnnotation_def run_defs example_defs)
  show ?thesis
    using one written_mode_is_one_of_three
      [of "probing_cluster (False, None) (True, None) None" example_request Map.empty]
    by (simp only: list_all_iff) blast
qed

section \<open>Validation looks at presence only\<close>

text \<open>
  Claim C10. When the fetched secret has both \<^verbatim>\<open>aws_access_key_id\<close> and
  \<^verbatim>\<open>aws_secret_access_key\<close> and both hold the empty byte string, the call that follows
  the fetch is the infra-name lookup, not an annotation write; when the lookup succeeds,
  the next call is the client construction with an empty access key id and an empty
  secret access key; and when the construction succeeds, the next call is the creation
  probe on the client it returned.
\<close>

theorem empty_values_pass_validation:
  assumes "Get r request = Inr secret"
    and "Data secret ''aws_access_key_id'' = Some ''''"
    and "Data secret ''aws_secret_access_key'' = Some ''''"
  shows "take 2 (calls_made (reconciliation r request objs))
           = [CallGet request None, CallLoadInfrastructureName (errorOf (GetInfrastructure r))]
       \<and> (GetInfrastructure r = Inr infra \<longrightarrow>
            take 3 (calls_made (reconciliation r request objs))
              = [CallGet request None, CallLoadInfrastructureName None,
                 CallAWSClientBuilder \<lparr>AccessKeyID = '''', SecretAccessKey = ''''\<rparr>
                   (InfrastructureName infra)
                   (errorOf (AWSClientBuilder r \<lparr>AccessKeyID = '''', SecretAccessKey = ''''\<rparr>
                      (InfrastructureName infra)))])
       \<and> (GetInfrastructure r = Inr infra
            \<and> AWSClientBuilder r \<lparr>AccessKeyID = '''', SecretAccessKey = ''''\<rparr>
                (InfrastructureName infra) = Inr c \<longrightarrow>
            take 4 (calls_made (reconciliation r request objs))
              = [CallGet request None, CallLoadInfrastructureName None,
                 CallAWSClientBuilder \<lparr>AccessKeyID = '''', SecretAccessKey = ''''\<rparr>
                   (InfrastructureName infra) None,
                 CallCheckCloudCredCreation c (fst (CheckCloudCredCreation r c))
                   (snd (CheckCloudCredCreation r c))])"
  using assms
  by (cases rule: reconciliation_cases [of r request objs])
     (auto simp add: calls_made_def errorOf_def AwsAccessKeyName_def AwsSecretAccessKeyName_def)

text \<open>
  Claim C10 at a run on the secret with two empty values where every collaborator
  succeeds: the calls after the fetch are the lookup, the construction with the empty
  credentials and the creation probe.
\<close>

theorem empty_values_pass_validation_witness:
  "Get (fake_collaborators (Inr (example_secret empty_valued_data)) (Inr example_infra) (Inr 7)
          (False, None) (False, None) None) example_request
     = Inr (example_secret empty_valued_data)
   \<and> Data (example_secret empty_valued_data) ''aws_access_key_id'' = Some ''''
   \<and> Data (example_secret empty_valued_data) ''aws_secret_access_key'' = Some ''''
   \<and> take 4 (calls_made (reconciliation
         (fake_collaborators (Inr (example_secret empty_valued_data)) (Inr example_infra) (Inr 7)
            (False, None) (False, None) None)
         example_request Map.empty))
       = [CallGet example_request None, CallLoadInfrastructureName None,
          CallAWSClientBuilder \<lparr>AccessKeyID = '''', SecretAccessKey = ''''\<rparr>
            ''cluster-7xk2p'' None,
          CallCheckCloudCredCreation 7 False None]"
proof -
  have fetched: "Get (fake_collaborators (Inr (example_secret empty_valued_data))
      (Inr example_infra) (Inr 7) (False, None) (False, None) None) example_request
     = Inr (example_secret empty_valued_data)"
    by (simp add: fake_collaborators_def)
  have k1: "Data (example_secret empty_valued_data) ''aws_access_key_id'' = Some ''''"
    by (simp add: example_defs AwsAccessKeyName_def AwsSecretAccessKeyName_def)
  have k2: "Data (example_secret empty_valued_data) ''aws_secret_access_key'' = Some ''''"
    by (simp add: example_defs AwsAccessKeyName_def AwsSecretAccessKeyName_def)
  have infra: "GetInfrastructure (fake_collaborators (Inr (example_secret empty_valued_data))
      (Inr example_infra) (Inr 7) (False, None) (False, None) None) = Inr example_infra"
    by (simp add: fake_collaborators_def)
  have built: "AWSClientBuilder (fake_collaborators (Inr (example_secret empty_valued_data))
      (Inr example_infra) (Inr 7) (False, None) (False, None) None)
      \<lparr>AccessKeyID = '''', SecretAccessKey = ''''\<rparr> (InfrastructureName example_infra) = Inr 7"
    by (simp add: fake_collaborators_def)
  have probe: "CheckCloudCredCreation (fake_collaborators (Inr (example_secret empty_valued_data))
      (Inr example_infra) (Inr 7) (False, None) (False, None) None) 7 = (False, None)"
    by (simp add: fake_collaborators_def)
  have name: "InfrastructureName example_infra = ''cluster-7xk2p''"
    by (simp add: example_infra_def)
  from empty_values_pass_validation [OF fetched k1 k2, of Map.empty example_infra 7]
    infra built
  have "take 4 (calls_made (reconciliation
         (fake_collaborators (Inr (example_secret empty_valued_data)) (Inr example_infra) (Inr 7)
            (False, None) (False, None) None)
         example_request Map.empty))
       = [CallGet example_request None, CallLoadInfrastructureName None,
          CallAWSClientBuilder \<lparr>AccessKeyID = '''', SecretAccessKey = ''''\<rparr>
            (InfrastructureName example_infra) None,
          CallCheckCloudCredCreation 7
            (fst (CheckCloudCredCreation (fake_collaborators
               (Inr (example_secret empty_valued_data)) (Inr example_infra) (Inr 7)
               (False, None) (False, None) None) 7))
            (snd (CheckCloudCredCreation (fake_collaborators
               (Inr (example_secret empty_valued_data)) (Inr example_infra) (Inr 7)
               (False, None) (False, None) None) 7))]"
    by blast
  then have calls4: "take 4 (calls_made (reconciliation
         (fake_collaborators (Inr (example_secret empty_valued_data)) (Inr example_infra) (Inr 7)
            (False, None) (False, None) None)
         example_request Map.empty))
       = [CallGet example_request None, CallLoadInfrastructureName None,
          CallAWSClientBuilder \<lparr>AccessKeyID = '''', SecretAccessKey = ''''\<rparr>
            ''cluster-7xk2p'' None,
          CallCheckCloudCredCreation 7 False None]"
    by (simp only: probe name fst_conv snd_conv)
  from fetched k1 k2 calls4 show ?thesis by blast
qed

end
